theory Spec2Isabelle
  imports Main "HOL-Library.Sublist"
begin

section \<open>GraphQL transport (\<^verbatim>\<open>src/lib/github/client.ts\<close>)\<close>

text \<open>
  The transport is the pair \<^verbatim>\<open>retryRequest\<close> / \<^verbatim>\<open>fetchGitHubGraphQL\<close>.
  Their effects are made explicit:
  \<^item> the network is the function \<open>requestFn\<close>, indexed by the number of requests
    issued before (the n-th call of the JavaScript closure), whose value is either a
    resolved HTTP response or a rejection (network failure);
  \<^item> a thrown \<^verbatim>\<open>Error\<close> is a value of \<open>client_error\<close>, one constructor per
    \<^verbatim>\<open>throw\<close> of the file;
  \<^item> \<^verbatim>\<open>setTimeout\<close> sleeps are recorded, in order, in a list of milliseconds;
  \<^item> the number of requests issued is returned with the result.
  The payload type \<open>'p\<close> is what \<^verbatim>\<open>response.json()\<close> parses the body into.
\<close>

record 'p Response =
  status :: nat
  statusText :: string
  json :: "'p option"  \<comment> \<open>\<open>None\<close>: \<^verbatim>\<open>response.json()\<close> rejects\<close>

definition ok :: "'p Response \<Rightarrow> bool" where
  \<comment> \<open>\<^verbatim>\<open>response.ok\<close> of the Fetch standard: a status in the range 200 to 299\<close>
  "ok response = (200 \<le> status response \<and> status response \<le> 299)"

datatype 'p fetch_outcome =
    Resolved "'p Response"
  | Rejected string  \<comment> \<open>the promise of \<^verbatim>\<open>requestFn()\<close> rejects (network failure)\<close>

datatype 'p error_data =
    Parsed 'p
  | EmptyObject  \<comment> \<open>the \<^verbatim>\<open>{}\<close> of \<^verbatim>\<open>.catch(() => ({}))\<close>\<close>

datatype 'p client_error =
    TokenRequired  \<comment> \<open>\<^verbatim>\<open>GitHub token is required\<close>\<close>
  | RateLimitExceeded "'p error_data"
      \<comment> \<open>\<^verbatim>\<open>GitHub API rate limit exceeded: ${JSON.stringify(errorData)}\<close>\<close>
  | ApiError nat string  \<comment> \<open>\<^verbatim>\<open>GitHub API error: ${status} ${statusText}\<close>\<close>
  | NetworkError string  \<comment> \<open>whatever \<^verbatim>\<open>requestFn()\<close> rejected with\<close>
  | MaxRetriesExceeded  \<comment> \<open>\<^verbatim>\<open>Max retries exceeded\<close>\<close>
  | JsonError  \<comment> \<open>\<^verbatim>\<open>response.json()\<close> rejects in \<^verbatim>\<open>fetchGitHubGraphQL\<close>\<close>
  | GraphQLErrors string  \<comment> \<open>the message, \<^verbatim>\<open>GraphQL errors: ...\<close>\<close>
  | NoData  \<comment> \<open>\<^verbatim>\<open>No data returned from GitHub API\<close>\<close>

text \<open>How one pass through the \<^verbatim>\<open>try\<close> block of the loop body ends.\<close>

datatype 'p try_result =
    Returned "'p Response"
  | Continued  \<comment> \<open>slept, then \<^verbatim>\<open>continue\<close>\<close>
  | Thrown "'p client_error"  \<comment> \<open>control passes to the \<^verbatim>\<open>catch\<close> block\<close>

definition errorData :: "'p Response \<Rightarrow> 'p error_data" where
  \<comment> \<open>\<^verbatim>\<open>await response.json().catch(() => ({}))\<close>\<close>
  "errorData response = (case json response of Some p \<Rightarrow> Parsed p | None \<Rightarrow> EmptyObject)"

definition try_block :: "'p fetch_outcome \<Rightarrow> nat \<Rightarrow> nat \<Rightarrow> 'p try_result" where
  \<comment> \<open>lines 24 to 40; inside the loop \<open>i < maxRetries\<close>, so \<open>maxRetries - 1\<close> is the
      same number on \<open>nat\<close> as in JavaScript\<close>
  "try_block outcome maxRetries i =
     (case outcome of
        Rejected e \<Rightarrow> Thrown (NetworkError e)
      | Resolved response \<Rightarrow>
          if ok response then Returned response
          else if status response = 403 then Thrown (RateLimitExceeded (errorData response))
          else if status response \<ge> 500 \<and> i < maxRetries - 1 then Continued
          else Thrown (ApiError (status response) (statusText response)))"

text \<open>
  The \<^verbatim>\<open>for\<close> loop of \<^verbatim>\<open>retryRequest\<close>. Each iteration issues exactly one
  request, so the loop counter \<open>i\<close> is also the number of requests issued so far and the
  index of the next one. The \<^verbatim>\<open>catch\<close> block receives every error thrown in the
  \<^verbatim>\<open>try\<close> block, those of lines 30 and 38 included: it rethrows on the last
  iteration only, and otherwise sleeps and lets the loop go on.
\<close>

function retry_loop ::
  "(nat \<Rightarrow> 'p fetch_outcome) \<Rightarrow> nat \<Rightarrow> nat \<Rightarrow> nat \<Rightarrow> nat list \<Rightarrow>
     ('p client_error + 'p Response) \<times> nat \<times> nat list" where
  "retry_loop requestFn maxRetries delay i slept =
     (if i < maxRetries then
        (case try_block (requestFn i) maxRetries i of
           Returned response \<Rightarrow> (Inr response, Suc i, slept)
         | Continued \<Rightarrow>
             retry_loop requestFn maxRetries delay (Suc i) (slept @ [delay * (i + 1)])
         | Thrown error \<Rightarrow>
             if i = maxRetries - 1 then (Inl error, Suc i, slept)
             else retry_loop requestFn maxRetries delay (Suc i) (slept @ [delay * (i + 1)]))
      else (Inl MaxRetriesExceeded, i, slept))"
  by pat_completeness auto
termination
  by (relation "measure (\<lambda>(requestFn, maxRetries, delay, i, slept). maxRetries - i)") auto

declare retry_loop.simps [simp del]

definition retryRequest ::
  "(nat \<Rightarrow> 'p fetch_outcome) \<Rightarrow> nat \<Rightarrow> nat \<Rightarrow>
     ('p client_error + 'p Response) \<times> nat \<times> nat list" where
  \<comment> \<open>result, requests issued, sleeps in milliseconds\<close>
  "retryRequest requestFn maxRetries delay = retry_loop requestFn maxRetries delay 0 []"

record GraphQLErrorItem =
  message :: string
  type :: string

record 'a GraphQLResponse =
  data :: "'a option"  \<comment> \<open>\<^verbatim>\<open>data?: T\<close>; \<open>None\<close> is an absent or \<^verbatim>\<open>null\<close> field\<close>
  errors :: "GraphQLErrorItem list option"

fun join :: "string \<Rightarrow> string list \<Rightarrow> string" where
  \<comment> \<open>\<^verbatim>\<open>Array.prototype.join\<close> on an array of strings\<close>
  "join sep [] = []"
| "join sep [x] = x"
| "join sep (x # y # ys) = x @ sep @ join sep (y # ys)"

definition truthy_string :: "string option \<Rightarrow> bool" where
  \<comment> \<open>JavaScript truthiness of a \<^verbatim>\<open>string | undefined | null\<close>: a non-empty string\<close>
  "truthy_string s = (case s of None \<Rightarrow> False | Some t \<Rightarrow> t \<noteq> [])"

text \<open>
  \<^verbatim>\<open>fetchGitHubGraphQL<T>\<close> is generic in the type \<open>T\<close> of the data, and line 82 tests
  the data for truthiness (\<^verbatim>\<open>!data.data\<close>), not for presence. What JavaScript takes for
  truthy among the values of \<open>T\<close> is the parameter \<open>truthy\<close>: constantly true for an
  object type, being different from zero for a number, being non-empty for a string.
\<close>

definition graphql_result ::
  "('a \<Rightarrow> bool) \<Rightarrow> 'a GraphQLResponse \<Rightarrow> 'a GraphQLResponse client_error + 'a" where
  \<comment> \<open>lines 76 to 86\<close>
  "graphql_result truthy d =
     (case errors d of
        Some (e # es) \<Rightarrow>
          Inl (GraphQLErrors (''GraphQL errors: '' @ join '', '' (map message (e # es))))
      | _ \<Rightarrow>
          (case data d of
             None \<Rightarrow> Inl NoData
           | Some v \<Rightarrow> if truthy v then Inr v else Inl NoData))"

definition fetchGitHubGraphQL ::
  "('a \<Rightarrow> bool) \<Rightarrow> (nat \<Rightarrow> 'a GraphQLResponse fetch_outcome) \<Rightarrow> string option \<Rightarrow>
     ('a GraphQLResponse client_error + 'a) \<times> nat \<times> nat list" where
  \<comment> \<open>\<open>requestFn\<close> stands for the closure \<^verbatim>\<open>() => fetch(GITHUB_API_URL, ...)\<close>; the
      query and the variables only travel in the request body\<close>
  "fetchGitHubGraphQL truthy requestFn token =
     (if \<not> truthy_string token then (Inl TokenRequired, 0, [])
      else
        (case retryRequest requestFn 3 1000 of
           (Inl error, n, slept) \<Rightarrow> (Inl error, n, slept)
         | (Inr response, n, slept) \<Rightarrow>
             (case json response of
                None \<Rightarrow> (Inl JsonError, n, slept)
              | Some d \<Rightarrow> (graphql_result truthy d, n, slept))))"

section \<open>Upstream and output shapes (\<^verbatim>\<open>src/lib/github/types.ts\<close>)\<close>

text \<open>
  An optional field (\<^verbatim>\<open>f?: T\<close>, also \<^verbatim>\<open>T | null\<close>) is an \<open>option\<close>. GitHub's counts
  are GraphQL \<^verbatim>\<open>Int\<close>s, modelled as \<open>int\<close>. Field names are the source's; where two
  shapes share a name the output shape's field carries a prefix (\<open>r_\<close> for
  \<^verbatim>\<open>GitHubRepository\<close>, \<open>s_\<close> for \<^verbatim>\<open>GitHubStats\<close>), and \<^verbatim>\<open>id\<close>, \<^verbatim>\<open>size\<close> and
  \<^verbatim>\<open>name\<close> of a language are \<open>node_id\<close>, \<open>edge_size\<close> and \<open>lang_name\<close>.
\<close>

record TotalCount =
  totalCount :: "int option"  \<comment> \<open>the shape \<^verbatim>\<open>{ totalCount?: number }\<close>\<close>

record Language =
  lang_name :: string
  lang_color :: string

record LanguageEdge =
  edge_size :: int
  edge_node :: Language

record Languages =
  totalSize :: int
  edges :: "LanguageEdge list"

record Target =
  history :: "TotalCount option"

record BranchRef =
  target :: "Target option"

record RepoNode =
  node_id :: string
  name :: string
  nameWithOwner :: string
  description :: "string option"
  url :: string
  homepageUrl :: "string option"
  stargazers :: "TotalCount option"
  forkCount :: "int option"
  isPrivate :: bool
  isArchived :: bool
  isTemplate :: bool
  primaryLanguage :: "Language option"
  updatedAt :: string
  createdAt :: string
  pushedAt :: string
  languages :: "Languages option"
  defaultBranchRef :: "BranchRef option"

record PageInfo =
  hasNextPage :: "bool option"
  endCursor :: "string option"

record Repositories =
  repos_totalCount :: "int option"
  nodes :: "RepoNode list option"
  pageInfo :: "PageInfo option"

record ReposUser =
  repositories :: "Repositories option"

record GitHubGraphQLReposResponse =
  user :: "ReposUser option"

datatype HistoryCount =
  HistoryCount int  \<comment> \<open>the wrapper \<^verbatim>\<open>{ target: { history: { totalCount } } }\<close>\<close>

record GitHubRepository =
  r_id :: string
  r_name :: string
  r_nameWithOwner :: string
  r_description :: "string option"
  r_url :: string
  r_homepageUrl :: "string option"
  stargazerCount :: int
  r_forkCount :: int
  r_isPrivate :: bool
  r_isArchived :: bool
  r_isTemplate :: bool
  r_primaryLanguage :: "Language option"
  r_updatedAt :: string
  r_createdAt :: string
  r_pushedAt :: string
  r_languages :: Languages
  r_defaultBranchRef :: "HistoryCount option"

section \<open>Repository listing route (\<^verbatim>\<open>GET\<close> of the repos route)\<close>

subsection \<open>Request parameters\<close>

record Request =
  featured_param :: "string option"  \<comment> \<open>\<^verbatim>\<open>searchParams.get('featured')\<close>\<close>
  limit_param :: "string option"  \<comment> \<open>\<^verbatim>\<open>searchParams.get('limit')\<close>\<close>

fun split_on :: "char \<Rightarrow> string \<Rightarrow> string list" where
  \<comment> \<open>\<^verbatim>\<open>String.prototype.split\<close> with a one-character separator\<close>
  "split_on sep [] = [[]]"
| "split_on sep (c # cs) =
     (if c = sep then [] # split_on sep cs
      else (case split_on sep cs of
              [] \<Rightarrow> [[c]]
            | w # ws \<Rightarrow> (c # w) # ws))"

definition featured_of :: "Request \<Rightarrow> string list" where
  \<comment> \<open>\<^verbatim>\<open>searchParams.get('featured')?.split(',').filter(Boolean) || []\<close>\<close>
  "featured_of req =
     (case featured_param req of
        None \<Rightarrow> []
      | Some s \<Rightarrow> filter (\<lambda>w. w \<noteq> []) (split_on CHR '','' s))"

datatype number =
    NaN
  | Num int

definition is_white_space :: "char \<Rightarrow> bool" where
  \<comment> \<open>the white space and line terminators that \<^verbatim>\<open>parseInt\<close> skips, among the
      characters below 256: TAB, LF, VT, FF, CR, SP, NBSP\<close>
  "is_white_space c = ((of_char c :: nat) \<in> {9, 10, 11, 12, 13, 32, 160})"

definition is_digit :: "char \<Rightarrow> bool" where
  "is_digit c = (48 \<le> (of_char c :: nat) \<and> (of_char c :: nat) \<le> 57)"

definition digits_value :: "string \<Rightarrow> int" where
  "digits_value ds = foldl (\<lambda>acc c. 10 * acc + (int (of_char c) - 48)) 0 ds"

definition parseInt :: "string \<Rightarrow> number" where
  \<comment> \<open>\<^verbatim>\<open>parseInt(s, 10)\<close>: skip leading white space, read an optional sign, then the
      longest run of decimal digits; no digit gives \<^verbatim>\<open>NaN\<close>. The value is exact here
      (a JavaScript number rounds beyond \<open>2 ^ 53\<close>, far above any array length)\<close>
  "parseInt s =
     (let t = dropWhile is_white_space s;
          sign = (case t of c # _ \<Rightarrow> if c = CHR ''-'' then - 1 else 1 | [] \<Rightarrow> 1);
          u = (case t of c # r \<Rightarrow> if c = CHR ''-'' \<or> c = CHR ''+'' then r else t | [] \<Rightarrow> t);
          ds = takeWhile is_digit u
      in if ds = [] then NaN else Num (sign * digits_value ds))"

definition limit_of :: "Request \<Rightarrow> number" where
  \<comment> \<open>\<^verbatim>\<open>parseInt(searchParams.get('limit') || '10', 10)\<close>: an absent and an empty
      parameter are both falsy and give the default\<close>
  "limit_of req =
     parseInt (case limit_param req of
                 None \<Rightarrow> ''10''
               | Some s \<Rightarrow> if s = [] then ''10'' else s)"

subsection \<open>Pagination\<close>

definition page_nodes :: "GitHubGraphQLReposResponse \<Rightarrow> RepoNode list" where
  \<comment> \<open>\<^verbatim>\<open>data.user?.repositories?.nodes || []\<close>\<close>
  "page_nodes d =
     (case user d of
        None \<Rightarrow> []
      | Some u \<Rightarrow>
          (case repositories u of
             None \<Rightarrow> []
           | Some r \<Rightarrow> (case nodes r of None \<Rightarrow> [] | Some ns \<Rightarrow> ns)))"

definition page_info :: "GitHubGraphQLReposResponse \<Rightarrow> PageInfo option" where
  \<comment> \<open>\<^verbatim>\<open>data.user?.repositories?.pageInfo\<close>\<close>
  "page_info d =
     (case user d of
        None \<Rightarrow> None
      | Some u \<Rightarrow> (case repositories u of None \<Rightarrow> None | Some r \<Rightarrow> pageInfo r))"

definition page_hasNextPage :: "GitHubGraphQLReposResponse \<Rightarrow> bool" where
  \<comment> \<open>\<^verbatim>\<open>data.user?.repositories?.pageInfo?.hasNextPage || false\<close>\<close>
  "page_hasNextPage d =
     (case page_info d of
        None \<Rightarrow> False
      | Some p \<Rightarrow> (case hasNextPage p of None \<Rightarrow> False | Some b \<Rightarrow> b))"

definition page_endCursor :: "GitHubGraphQLReposResponse \<Rightarrow> string option" where
  \<comment> \<open>\<^verbatim>\<open>data.user?.repositories?.pageInfo?.endCursor || null\<close>: an empty cursor is
      falsy\<close>
  "page_endCursor d =
     (case page_info d of
        None \<Rightarrow> None
      | Some p \<Rightarrow>
          (case endCursor p of None \<Rightarrow> None | Some c \<Rightarrow> if c = [] then None else Some c))"

text \<open>
  The \<^verbatim>\<open>while\<close> loop of lines 139 to 156. The upstream is the function \<open>fetch\<close>:
  \<open>fetch k after\<close> is the outcome of the \<open>k\<close>-th call of
  \<^verbatim>\<open>fetchGitHubGraphQL(GRAPHQL_REPOS_QUERY, {login, after}, token)\<close>, an error when the
  call throws. Nothing in the source bounds the number of iterations (an upstream that
  keeps answering with empty pages and \<^verbatim>\<open>hasNextPage\<close> true keeps the loop running), so
  the model takes fuel, one unit per iteration, and \<open>None\<close> means that the loop was
  still running when the fuel ran out.
\<close>

type_synonym 'e upstream = "nat \<Rightarrow> string option \<Rightarrow> 'e + GitHubGraphQLReposResponse"

fun paginate ::
  "nat \<Rightarrow> 'e upstream \<Rightarrow> nat \<Rightarrow> RepoNode list \<Rightarrow> bool \<Rightarrow> string option \<Rightarrow>
     ('e + RepoNode list) option" where
  "paginate fuel fetch k allRepos hasNext cursor =
     (if hasNext \<and> length allRepos < 100 then
        (case fuel of
           0 \<Rightarrow> None
         | Suc fuel' \<Rightarrow>
             (case fetch k cursor of
                Inl error \<Rightarrow> Some (Inl error)
              | Inr d \<Rightarrow>
                  paginate fuel' fetch (Suc k) (allRepos @ page_nodes d)
                    (page_hasNextPage d) (page_endCursor d)))
      else Some (Inr allRepos))"

declare paginate.simps [simp del]

subsection \<open>Filtering, featured repositories, sorting, truncation\<close>

definition is_public :: "RepoNode \<Rightarrow> bool" where
  \<comment> \<open>the predicate of lines 159 to 161\<close>
  "is_public repo = (\<not> isPrivate repo \<and> \<not> isArchived repo \<and> \<not> isTemplate repo)"

definition toLowerCase_char :: "char \<Rightarrow> char" where
  \<comment> \<open>the lowercase mapping of Unicode on the code units below 256: \<open>A\<close> to \<open>Z\<close>, and
      U+00C0 to U+00DE without the multiplication sign U+00D7, move up by 32\<close>
  "toLowerCase_char c =
     (if (65 \<le> (of_char c :: nat) \<and> (of_char c :: nat) \<le> 90) \<or>
         (192 \<le> (of_char c :: nat) \<and> (of_char c :: nat) \<le> 222 \<and> (of_char c :: nat) \<noteq> 215)
      then char_of ((of_char c :: nat) + 32) else c)"

definition toLowerCase :: "string \<Rightarrow> string" where
  \<comment> \<open>\<^verbatim>\<open>String.prototype.toLowerCase\<close>. A \<open>string\<close> here is a sequence of code units
      below 256 (Latin-1, which holds every GitHub repository name); a code unit above
      that range has no counterpart in this type\<close>
  "toLowerCase s = map toLowerCase_char s"

fun includes_str :: "string \<Rightarrow> string \<Rightarrow> bool" where
  \<comment> \<open>\<^verbatim>\<open>s.includes(t)\<close>: \<open>t\<close> occurs in \<open>s\<close> as a contiguous run\<close>
  "includes_str [] t = (t = [])"
| "includes_str (c # cs) t = (take (length t) (c # cs) = t \<or> includes_str cs t)"

definition is_featured :: "string list \<Rightarrow> RepoNode \<Rightarrow> bool" where
  \<comment> \<open>\<^verbatim>\<open>featured.some(name => repo.name.toLowerCase().includes(name.toLowerCase()))\<close>\<close>
  "is_featured featured repo =
     list_ex (\<lambda>fragment. includes_str (toLowerCase (name repo)) (toLowerCase fragment)) featured"

definition prioritize :: "string list \<Rightarrow> RepoNode list \<Rightarrow> RepoNode list" where
  \<comment> \<open>lines 164 to 177\<close>
  "prioritize featured publicRepos =
     (if length featured > 0 then
        (let featuredRepos = filter (is_featured featured) publicRepos;
             otherRepos = filter (\<lambda>repo. \<not> is_featured featured repo) publicRepos
         in featuredRepos @ otherRepos)
      else publicRepos)"

definition stars :: "RepoNode \<Rightarrow> int" where
  \<comment> \<open>\<^verbatim>\<open>repo.stargazers?.totalCount || 0\<close>\<close>
  "stars repo =
     (case stargazers repo of
        None \<Rightarrow> 0
      | Some sg \<Rightarrow> (case totalCount sg of None \<Rightarrow> 0 | Some n \<Rightarrow> n))"

definition compare_stars :: "RepoNode \<Rightarrow> RepoNode \<Rightarrow> int" where
  \<comment> \<open>the comparator of lines 181 and 182\<close>
  "compare_stars a b = stars b - stars a"

text \<open>
  \<^verbatim>\<open>Array.prototype.sort\<close> is stable (ECMAScript 2019): with a comparator that is a
  consistent ordering, as \<open>compare_stars\<close> is, its result is the one stable sorted
  arrangement, which insertion from the right computes. An element goes in front of the
  first element it does not have to follow (\<open>cmp x y \<le> 0\<close>), so equal elements keep
  their order.
\<close>

fun insert_by :: "('a \<Rightarrow> 'a \<Rightarrow> int) \<Rightarrow> 'a \<Rightarrow> 'a list \<Rightarrow> 'a list" where
  "insert_by cmp x [] = [x]"
| "insert_by cmp x (y # ys) =
     (if cmp x y \<le> 0 then x # y # ys else y # insert_by cmp x ys)"

definition sort_by :: "('a \<Rightarrow> 'a \<Rightarrow> int) \<Rightarrow> 'a list \<Rightarrow> 'a list" where
  "sort_by cmp xs = foldr (insert_by cmp) xs []"

definition slice_to :: "number \<Rightarrow> 'a list \<Rightarrow> 'a list" where
  \<comment> \<open>\<^verbatim>\<open>xs.slice(0, limit)\<close>: \<^verbatim>\<open>NaN\<close> converts to 0; a negative end counts from the
      end of the array\<close>
  "slice_to limit xs =
     (case limit of
        NaN \<Rightarrow> []
      | Num n \<Rightarrow> if n < 0 then take (nat (int (length xs) + n)) xs else take (nat n) xs)"

subsection \<open>Normalization\<close>

definition history_totalCount :: "RepoNode \<Rightarrow> int option" where
  \<comment> \<open>\<^verbatim>\<open>repo.defaultBranchRef?.target?.history?.totalCount\<close>\<close>
  "history_totalCount repo =
     (case defaultBranchRef repo of
        None \<Rightarrow> None
      | Some b \<Rightarrow>
          (case target b of
             None \<Rightarrow> None
           | Some t \<Rightarrow> (case history t of None \<Rightarrow> None | Some h \<Rightarrow> totalCount h)))"

definition normalize_repo :: "RepoNode \<Rightarrow> GitHubRepository" where
  \<comment> \<open>the callback of \<^verbatim>\<open>publicRepos.map\<close>, lines 186 to 221\<close>
  "normalize_repo repo =
     \<lparr> r_id = node_id repo,
       r_name = name repo,
       r_nameWithOwner = nameWithOwner repo,
       r_description = description repo,
       r_url = url repo,
       r_homepageUrl = homepageUrl repo,
       stargazerCount = stars repo,
       r_forkCount = (case forkCount repo of None \<Rightarrow> 0 | Some n \<Rightarrow> n),
       r_isPrivate = isPrivate repo,
       r_isArchived = isArchived repo,
       r_isTemplate = isTemplate repo,
       r_primaryLanguage =
         (case primaryLanguage repo of
            None \<Rightarrow> None
          | Some l \<Rightarrow> Some \<lparr> lang_name = lang_name l, lang_color = lang_color l \<rparr>),
       r_updatedAt = updatedAt repo,
       r_createdAt = createdAt repo,
       r_pushedAt = pushedAt repo,
       r_languages =
         (case languages repo of None \<Rightarrow> \<lparr> totalSize = 0, edges = [] \<rparr> | Some ls \<Rightarrow> ls),
       r_defaultBranchRef =
         (case history_totalCount repo of None \<Rightarrow> None | Some n \<Rightarrow> Some (HistoryCount n)) \<rparr>"

subsection \<open>The handler\<close>

datatype 'a route_response =
    Json 'a  \<comment> \<open>status 200 with the cache header\<close>
  | Failure nat string  \<comment> \<open>status and the \<^verbatim>\<open>error\<close> field of the body\<close>

definition select_repos :: "Request \<Rightarrow> RepoNode list \<Rightarrow> GitHubRepository list" where
  \<comment> \<open>lines 158 to 221: everything after the pagination loop\<close>
  "select_repos req allRepos =
     map normalize_repo
       (slice_to (limit_of req)
          (sort_by compare_stars (prioritize (featured_of req) (filter is_public allRepos))))"

definition GET_repos ::
  "nat \<Rightarrow> Request \<Rightarrow> string option \<Rightarrow> 'e upstream \<Rightarrow>
     GitHubRepository list route_response option" where
  \<comment> \<open>\<open>token\<close> is \<^verbatim>\<open>process.env.GITHUB_TOKEN\<close>; \<open>None\<close> when the pagination loop is
      still running after \<open>fuel\<close> iterations\<close>
  "GET_repos fuel req token fetch =
     (if \<not> truthy_string token then Some (Failure 500 ''GitHub token not configured'')
      else
        (case paginate fuel fetch 0 [] True None of
           None \<Rightarrow> None
         | Some (Inl error) \<Rightarrow> Some (Failure 500 ''Failed to fetch GitHub repositories'')
         | Some (Inr allRepos) \<Rightarrow> Some (Json (select_repos req allRepos))))"

section \<open>Statistics route (\<^verbatim>\<open>src/app/api/github/stats/route.ts\<close>)\<close>

record StatsNode =
  sn_stargazers :: "TotalCount option"

record StatsRepositories =
  sr_totalCount :: int
  sr_nodes :: "StatsNode list"

record Commits =
  totalCommitContributions :: "int option"

record Reviews =
  totalPullRequestReviewContributions :: "int option"

record GitHubGraphQLUserStats =
  u_name :: "string option"
  u_login :: string
  u_avatarUrl :: string
  u_repositories :: StatsRepositories
  commits :: "Commits option"
  pullRequests :: "TotalCount option"
  mergedPullRequests :: "TotalCount option"
  reviews :: "Reviews option"
  openIssues :: "TotalCount option"
  closedIssues :: "TotalCount option"
  repositoriesContributedTo :: "TotalCount option"
  followers :: "TotalCount option"
  following :: "TotalCount option"

record GitHubStats =
  s_name :: string
  s_login :: string
  s_avatarUrl :: string
  totalRepos :: int
  totalStars :: int
  totalCommits :: int
  totalPRs :: int
  totalPRsMerged :: int
  totalReviews :: int
  totalIssues :: int
  contributedTo :: int
  s_followers :: int
  s_following :: int

definition count_or_zero :: "TotalCount option \<Rightarrow> int" where
  \<comment> \<open>\<^verbatim>\<open>x?.totalCount || 0\<close>\<close>
  "count_or_zero x =
     (case x of None \<Rightarrow> 0 | Some c \<Rightarrow> (case totalCount c of None \<Rightarrow> 0 | Some n \<Rightarrow> n))"

definition sum_stars :: "StatsNode list \<Rightarrow> int" where
  \<comment> \<open>the \<^verbatim>\<open>reduce\<close> of lines 43 to 46\<close>
  "sum_stars ns = foldl (\<lambda>sum repo. sum + count_or_zero (sn_stargazers repo)) 0 ns"

definition to_stats :: "GitHubGraphQLUserStats \<Rightarrow> GitHubStats" where
  \<comment> \<open>lines 42 to 64\<close>
  "to_stats u =
     \<lparr> s_name = (case u_name u of None \<Rightarrow> u_login u | Some n \<Rightarrow> if n = [] then u_login u else n),
       s_login = u_login u,
       s_avatarUrl = u_avatarUrl u,
       totalRepos = sr_totalCount (u_repositories u),
       totalStars = sum_stars (sr_nodes (u_repositories u)),
       totalCommits =
         (case commits u of
            None \<Rightarrow> 0
          | Some c \<Rightarrow> (case totalCommitContributions c of None \<Rightarrow> 0 | Some n \<Rightarrow> n)),
       totalPRs = count_or_zero (pullRequests u),
       totalPRsMerged = count_or_zero (mergedPullRequests u),
       totalReviews =
         (case reviews u of
            None \<Rightarrow> 0
          | Some r \<Rightarrow> (case totalPullRequestReviewContributions r of None \<Rightarrow> 0 | Some n \<Rightarrow> n)),
       totalIssues = count_or_zero (openIssues u) + count_or_zero (closedIssues u),
       contributedTo = count_or_zero (repositoriesContributedTo u),
       s_followers = count_or_zero (followers u),
       s_following = count_or_zero (following u) \<rparr>"

definition GET_stats ::
  "string option \<Rightarrow> ('e + GitHubGraphQLUserStats option) \<Rightarrow> GitHubStats route_response" where
  \<comment> \<open>\<open>fetched\<close> is the outcome of the one call of \<^verbatim>\<open>fetchGitHubGraphQL\<close>, the
      \<^verbatim>\<open>user\<close> field of its data when it returns\<close>
  "GET_stats token fetched =
     (if \<not> truthy_string token then Failure 500 ''GitHub token not configured''
      else
        (case fetched of
           Inl error \<Rightarrow> Failure 500 ''Failed to fetch GitHub stats''
         | Inr None \<Rightarrow> Failure 404 ''User not found''
         | Inr (Some u) \<Rightarrow> Json (to_stats u)))"

section \<open>Query catalog (\<^verbatim>\<open>GRAPHQL_REPOS_QUERY\<close>)\<close>

text \<open>
  The queries are constant documents that travel in the request body; what the upstream
  answers is an input of the routes. Of the repository query the development uses the
  arguments of its \<^verbatim>\<open>languages\<close> field, as a condition on an answer.
\<close>

definition descending_top10 :: "Languages \<Rightarrow> bool" where
  \<comment> \<open>an answer to \<^verbatim>\<open>languages(first: 10, orderBy: {field: SIZE, direction: DESC})\<close>\<close>
  "descending_top10 ls =
     (length (edges ls) \<le> 10 \<and> sorted_wrt (\<lambda>a b. edge_size b \<le> edge_size a) (edges ls))"

section \<open>Sample inputs\<close>

definition http_response :: "nat \<Rightarrow> string \<Rightarrow> 'p option \<Rightarrow> 'p fetch_outcome" where
  "http_response code text body = Resolved \<lparr> status = code, statusText = text, json = body \<rparr>"

definition forbidden_then_ok :: "nat \<Rightarrow> string fetch_outcome" where
  "forbidden_then_ok n =
     (if n = 0 then http_response 403 ''Forbidden'' (Some ''API rate limit exceeded'')
      else http_response 200 ''OK'' (Some ''second answer''))"

definition not_found_then_ok :: "nat \<Rightarrow> string fetch_outcome" where
  "not_found_then_ok n =
     (if n = 0 then http_response 404 ''Not Found'' None
      else http_response 200 ''OK'' (Some ''second answer''))"

definition two_500_then_ok :: "nat \<Rightarrow> string fetch_outcome" where
  "two_500_then_ok n =
     (if n < 2 then http_response 500 ''Internal Server Error'' None
      else http_response 200 ''OK'' (Some ''third answer''))"

definition always_500 :: "nat \<Rightarrow> string fetch_outcome" where
  "always_500 n = http_response 500 ''Internal Server Error'' None"

definition errors_payload :: "unit GraphQLResponse" where
  "errors_payload =
     \<lparr> data = Some (),
       errors = Some [\<lparr> message = ''Field x is missing'', type = ''NOT_FOUND'' \<rparr>,
                      \<lparr> message = ''Timeout'', type = ''INTERNAL'' \<rparr>] \<rparr>"

definition errors_requestFn :: "nat \<Rightarrow> unit GraphQLResponse fetch_outcome" where
  "errors_requestFn n = http_response 200 ''OK'' (Some errors_payload)"

definition truthy_object :: "'a \<Rightarrow> bool" where
  \<comment> \<open>every object is truthy\<close>
  "truthy_object v = True"

definition truthy_number :: "int \<Rightarrow> bool" where
  \<comment> \<open>a number is truthy unless it is zero\<close>
  "truthy_number n = (n \<noteq> 0)"

definition zero_payload :: "int GraphQLResponse" where
  \<comment> \<open>the body \<^verbatim>\<open>{"data": 0}\<close>\<close>
  "zero_payload = \<lparr> data = Some 0, errors = None \<rparr>"

definition zero_requestFn :: "nat \<Rightarrow> int GraphQLResponse fetch_outcome" where
  "zero_requestFn n = http_response 200 ''OK'' (Some zero_payload)"

definition seven_payload :: "int GraphQLResponse" where
  \<comment> \<open>the body \<^verbatim>\<open>{"data": 7, "errors": []}\<close>\<close>
  "seven_payload = \<lparr> data = Some 7, errors = Some [] \<rparr>"

definition seven_requestFn :: "nat \<Rightarrow> int GraphQLResponse fetch_outcome" where
  "seven_requestFn n = http_response 200 ''OK'' (Some seven_payload)"

definition sample_repo :: "string \<Rightarrow> int \<Rightarrow> RepoNode" where
  \<comment> \<open>a public repository with the given name and star count\<close>
  "sample_repo nm n =
     \<lparr> node_id = ''R_'' @ nm, name = nm, nameWithOwner = ''HoneySinghDev/'' @ nm,
       description = None, url = ''https://github.com/HoneySinghDev/'' @ nm,
       homepageUrl = None, stargazers = Some \<lparr> totalCount = Some n \<rparr>, forkCount = None,
       isPrivate = False, isArchived = False, isTemplate = False, primaryLanguage = None,
       updatedAt = ''2025-01-01T00:00:00Z'', createdAt = ''2024-01-01T00:00:00Z'',
       pushedAt = ''2025-01-01T00:00:00Z'', languages = None, defaultBranchRef = None \<rparr>"

definition page :: "RepoNode list \<Rightarrow> bool \<Rightarrow> GitHubGraphQLReposResponse" where
  \<comment> \<open>a page of the repository connection, with its \<^verbatim>\<open>hasNextPage\<close>\<close>
  "page ns nxt =
     \<lparr> user = Some \<lparr> repositories = Some
         \<lparr> repos_totalCount = None, nodes = Some ns,
           pageInfo = Some \<lparr> hasNextPage = Some nxt, endCursor = Some ''Y3Vyc29y'' \<rparr> \<rparr> \<rparr> \<rparr>"

definition one_page :: "RepoNode list \<Rightarrow> 'e upstream" where
  \<comment> \<open>an upstream whose every answer is the same last page\<close>
  "one_page ns k after = Inr (page ns False)"

definition private_repo :: RepoNode where
  "private_repo = (sample_repo ''secret-notes'' 99) \<lparr> isPrivate := True \<rparr>"

definition partial_then_full :: "'e upstream" where
  "partial_then_full k after =
     (if k = 0 then Inr (page (replicate 50 (sample_repo ''repo'' 1)) True)
      else Inr (page (replicate 100 (sample_repo ''repo'' 1)) True))"

definition full_pages :: "'e upstream" where
  "full_pages k after = Inr (page (replicate 100 (sample_repo ''repo'' 1)) True)"

definition empty_pages :: "'e upstream" where
  "empty_pages k after = Inr (page [] True)"

definition bare_repo :: RepoNode where
  "bare_repo = (sample_repo ''bare'' 0) \<lparr> stargazers := None \<rparr>"

definition counted_repo :: RepoNode where
  "counted_repo =
     (sample_repo ''counted'' 5)
       \<lparr> defaultBranchRef :=
           Some \<lparr> target = Some \<lparr> history = Some \<lparr> totalCount = Some 42 \<rparr> \<rparr> \<rparr> \<rparr>"

definition starred :: "int \<Rightarrow> StatsNode" where
  "starred n = \<lparr> sn_stargazers = Some \<lparr> totalCount = Some n \<rparr> \<rparr>"

definition sample_user :: "StatsNode list \<Rightarrow> GitHubGraphQLUserStats" where
  "sample_user ns =
     \<lparr> u_name = Some ''Honey Singh'', u_login = ''HoneySinghDev'',
       u_avatarUrl = ''https://avatars.githubusercontent.com/u/1'',
       u_repositories = \<lparr> sr_totalCount = int (length ns), sr_nodes = ns \<rparr>,
       commits = None, pullRequests = None, mergedPullRequests = None, reviews = None,
       openIssues = None, closedIssues = None, repositoriesContributedTo = None,
       followers = None, following = None \<rparr>"

definition language_edge :: "string \<Rightarrow> int \<Rightarrow> LanguageEdge" where
  "language_edge nm n =
     \<lparr> edge_size = n, edge_node = \<lparr> lang_name = nm, lang_color = ''#3178c6'' \<rparr> \<rparr>"

definition polyglot_repo :: RepoNode where
  \<comment> \<open>eleven languages, in ascending order of size\<close>
  "polyglot_repo =
     (sample_repo ''polyglot'' 3)
       \<lparr> languages := Some
           \<lparr> totalSize = 66,
             edges = [language_edge ''Awk'' 1, language_edge ''C'' 2, language_edge ''CSS'' 3,
               language_edge ''Go'' 4, language_edge ''HTML'' 5, language_edge ''Java'' 6,
               language_edge ''Lua'' 7, language_edge ''Nix'' 8, language_edge ''Perl'' 9,
               language_edge ''Rust'' 10, language_edge ''TypeScript'' 11] \<rparr> \<rparr>"

definition typescript_repo :: RepoNode where
  "typescript_repo =
     (sample_repo ''portfolio'' 4)
       \<lparr> languages := Some
           \<lparr> totalSize = 120,
             edges = [language_edge ''TypeScript'' 100, language_edge ''CSS'' 20] \<rparr> \<rparr>"

section \<open>Properties of the transport\<close>

lemmas retry_eval =
  retryRequest_def retry_loop.simps try_block_def ok_def http_response_def errorData_def

lemma retry_loop_requests:
  "fst (snd (retry_loop requestFn maxRetries delay i slept)) \<le> max i maxRetries"
proof (induction requestFn maxRetries delay i slept rule: retry_loop.induct)
  case (1 requestFn maxRetries delay i slept)
  show ?case
  proof (cases "i < maxRetries")
    case False
    then show ?thesis by (subst retry_loop.simps) simp
  next
    case True
    show ?thesis
    proof (cases "try_block (requestFn i) maxRetries i")
      case (Returned response)
      with True show ?thesis by (subst retry_loop.simps) simp
    next
      case Continued
      with True "1.IH"(1) show ?thesis by (subst retry_loop.simps) simp
    next
      case (Thrown error)
      with True "1.IH"(2) show ?thesis by (subst retry_loop.simps) simp
    qed
  qed
qed

text \<open>At most \<open>maxRetries\<close> requests are issued: three with the defaults.\<close>

lemma retryRequest_at_most_maxRetries:
  "fst (snd (retryRequest requestFn maxRetries delay)) \<le> maxRetries"
  using retry_loop_requests [of requestFn maxRetries delay 0 "[]"]
  by (simp add: retryRequest_def)

text \<open>
  Whenever the loop ends with a response or with an error of a request, the sleep before
  request number \<open>k + 1\<close> lasted \<open>delay * k\<close>.
\<close>

lemma retry_loop_slept:
  "retry_loop requestFn maxRetries delay i slept = (r, n, s) \<Longrightarrow>
   r \<noteq> Inl MaxRetriesExceeded \<Longrightarrow>
     i < n \<and> s = slept @ map (\<lambda>k. delay * (k + 1)) [i..<n - 1]"
proof (induction requestFn maxRetries delay i slept rule: retry_loop.induct)
  case (1 requestFn maxRetries delay i slept)
  let ?rec = "retry_loop requestFn maxRetries delay (Suc i) (slept @ [delay * (i + 1)])"
  have step: "i < n \<and> s = slept @ map (\<lambda>k. delay * (k + 1)) [i..<n - 1]"
    if "?rec = (r, n, s)"
      and ih: "Suc i < n \<and>
        s = (slept @ [delay * (i + 1)]) @ map (\<lambda>k. delay * (k + 1)) [Suc i..<n - 1]"
  proof -
    from ih have "i < n - 1" by arith
    then have "[i..<n - 1] = i # [Suc i..<n - 1]" by (simp add: upt_conv_Cons)
    with ih show ?thesis by simp
  qed
  show ?case
  proof (cases "i < maxRetries")
    case False
    with "1.prems" show ?thesis by (subst (asm) retry_loop.simps) auto
  next
    case True
    show ?thesis
    proof (cases "try_block (requestFn i) maxRetries i")
      case (Returned response)
      with True "1.prems" show ?thesis by (subst (asm) retry_loop.simps) auto
    next
      case Continued
      with True "1.prems" have rec: "?rec = (r, n, s)" by (subst (asm) retry_loop.simps) simp
      from step [OF rec "1.IH"(1) [OF True Continued rec "1.prems"(2)]] show ?thesis .
    next
      case (Thrown error)
      show ?thesis
      proof (cases "i = maxRetries - 1")
        case True
        with \<open>i < maxRetries\<close> Thrown "1.prems" show ?thesis
          by (subst (asm) retry_loop.simps) auto
      next
        case False
        with True Thrown "1.prems" have rec: "?rec = (r, n, s)"
          by (subst (asm) retry_loop.simps) simp
        from step [OF rec "1.IH"(2) [OF True Thrown False rec "1.prems"(2)]] show ?thesis .
      qed
    qed
  qed
qed

lemma retry_loop_ok:
  "retry_loop requestFn maxRetries delay i slept = (Inr response, n, s) \<Longrightarrow> ok response"
proof (induction requestFn maxRetries delay i slept rule: retry_loop.induct)
  case (1 requestFn maxRetries delay i slept)
  from "1.prems" show ?case
    apply (subst (asm) retry_loop.simps)
    using "1.IH"
    by (auto split: if_splits try_result.splits fetch_outcome.splits simp: try_block_def)
qed

lemma sublist_join: "x \<in> set xs \<Longrightarrow> sublist x (join sep xs)"
proof (induction sep xs rule: join.induct)
  case (1 sep)
  then show ?case by simp
next
  case (2 sep x)
  then show ?case by simp
next
  case (3 sep x' y ys)
  show ?case
  proof (cases "x = x'")
    case True
    then show ?thesis by simp
  next
    case False
    with 3 have "sublist x (join sep (y # ys))" by simp
    then show ?thesis by (simp add: sublist_append)
  qed
qed

text \<open>The retry policy on the sample request sequences.\<close>

lemma retryRequest_two_500_then_ok:
  "retryRequest two_500_then_ok 3 1000 =
     (Inr \<lparr> status = 200, statusText = ''OK'', json = Some ''third answer'' \<rparr>, 3, [1000, 2000])"
  by (simp add: retry_eval two_500_then_ok_def)

lemma retryRequest_always_500:
  "retryRequest always_500 3 1000 =
     (Inl (ApiError 500 ''Internal Server Error''), 3, [1000, 2000])"
  by (simp add: retry_eval always_500_def)

text \<open>
  A first response that is neither a success nor a 5xx is thrown inside the
  \<^verbatim>\<open>try\<close> block, caught by the \<^verbatim>\<open>catch\<close> block of the same iteration, and, when the
  iteration is not the last, followed by a sleep and the next request.
\<close>

lemma retryRequest_thrown_first:
  assumes "requestFn 0 = Resolved response" and "\<not> ok response"
    and "status response < 500" and "1 < maxRetries"
  shows "retryRequest requestFn maxRetries delay =
     retry_loop requestFn maxRetries delay 1 [delay]"
  using assms
  by (simp add: retryRequest_def retry_loop.simps [of requestFn maxRetries delay 0] try_block_def)

text \<open>
  C2. A first response with status 403 followed by a success: the transport sleeps for
  the base delay, issues a second request and returns its response; no rate-limit error
  reaches the caller.
\<close>

theorem retryRequest_403_issues_second_request:
  "retryRequest forbidden_then_ok 3 1000 =
     (Inr \<lparr> status = 200, statusText = ''OK'', json = Some ''second answer'' \<rparr>, 2, [1000])"
  by (simp add: retry_eval forbidden_then_ok_def)

text \<open>
  C5. A first response with status 404, which is neither a 5xx nor a network failure,
  is retried all the same: one sleep of the base delay, a second request, and its
  response returned.
\<close>

theorem retryRequest_404_is_retried:
  "retryRequest not_found_then_ok 3 1000 =
     (Inr \<lparr> status = 200, statusText = ''OK'', json = Some ''second answer'' \<rparr>, 2, [1000])"
  by (simp add: retry_eval not_found_then_ok_def)

text \<open>
  C7, the claim as stated fails: the body \<^verbatim>\<open>{"data": 0}\<close> has no errors and has a
  \<^verbatim>\<open>data\<close> field, and the call fails with the no-data error, since \<^verbatim>\<open>!data.data\<close>
  holds of 0.
\<close>

theorem falsy_data_is_no_data:
  "errors zero_payload = None \<and> data zero_payload = Some 0 \<and>
   retryRequest zero_requestFn 3 1000 =
     (Inr \<lparr> status = 200, statusText = ''OK'', json = Some zero_payload \<rparr>, 1, []) \<and>
   fst (fetchGitHubGraphQL truthy_number zero_requestFn (Some ''ghp_token'')) = Inl NoData"
  by (simp add: fetchGitHubGraphQL_def graphql_result_def truthy_string_def truthy_number_def
      retry_eval zero_requestFn_def zero_payload_def)

text \<open>
  C7, amended. Once the retry loop has returned a response (its status is then a success)
  whose body parses to the payload \<open>d\<close>: a non-empty \<^verbatim>\<open>errors\<close> array makes the call
  fail with the message that joins all the error messages, each of them occurring in it
  in full, whether or not \<^verbatim>\<open>data\<close> is present; with no error, a \<^verbatim>\<open>data\<close> that is
  missing or falsy is the no-data error, and a truthy \<^verbatim>\<open>data\<close> is returned.
\<close>

theorem fetchGitHubGraphQL_payload:
  assumes "truthy_string token"
    and "retryRequest requestFn 3 1000 = (Inr response, n, slept)"
    and "json response = Some d"
  shows "ok response \<and>
    (\<forall>es. errors d = Some es \<and> es \<noteq> [] \<longrightarrow>
       fst (fetchGitHubGraphQL truthy requestFn token) =
         Inl (GraphQLErrors (''GraphQL errors: '' @ join '', '' (map message es))) \<and>
       (\<forall>e \<in> set es. sublist (message e) (join '', '' (map message es)))) \<and>
    ((errors d = None \<or> errors d = Some []) \<and> data d = None \<longrightarrow>
       fst (fetchGitHubGraphQL truthy requestFn token) = Inl NoData) \<and>
    (\<forall>v. (errors d = None \<or> errors d = Some []) \<and> data d = Some v \<and> \<not> truthy v \<longrightarrow>
       fst (fetchGitHubGraphQL truthy requestFn token) = Inl NoData) \<and>
    (\<forall>v. (errors d = None \<or> errors d = Some []) \<and> data d = Some v \<and> truthy v \<longrightarrow>
       fst (fetchGitHubGraphQL truthy requestFn token) = Inr v)"
proof -
  from assms(2) have "ok response"
    unfolding retryRequest_def by (rule retry_loop_ok)
  moreover from assms
  have res: "fst (fetchGitHubGraphQL truthy requestFn token) = graphql_result truthy d"
    by (simp add: fetchGitHubGraphQL_def)
  moreover have "graphql_result truthy d =
      Inl (GraphQLErrors (''GraphQL errors: '' @ join '', '' (map message es)))"
    if "errors d = Some es" "es \<noteq> []" for es
    using that by (cases es) (simp_all add: graphql_result_def)
  moreover have "sublist (message e) (join '', '' (map message es))"
    if "e \<in> set es" for e :: GraphQLErrorItem and es
    using that by (intro sublist_join) simp
  moreover have "graphql_result truthy d =
      (case data d of None \<Rightarrow> Inl NoData | Some v \<Rightarrow> if truthy v then Inr v else Inl NoData)"
    if "errors d = None \<or> errors d = Some []"
    using that by (auto simp: graphql_result_def)
  ultimately show ?thesis
    by simp
qed

theorem fetchGitHubGraphQL_payload_witness:
  "truthy_string (Some ''ghp_token'') \<and>
   retryRequest errors_requestFn 3 1000 =
     (Inr \<lparr> status = 200, statusText = ''OK'', json = Some errors_payload \<rparr>, 1, []) \<and>
   fst (fetchGitHubGraphQL truthy_object errors_requestFn (Some ''ghp_token'')) =
     Inl (GraphQLErrors ''GraphQL errors: Field x is missing, Timeout'') \<and>
   retryRequest seven_requestFn 3 1000 =
     (Inr \<lparr> status = 200, statusText = ''OK'', json = Some seven_payload \<rparr>, 1, []) \<and>
   truthy_number 7 \<and>
   fst (fetchGitHubGraphQL truthy_number seven_requestFn (Some ''ghp_token'')) = Inr 7"
proof -
  let ?response = "\<lparr> status = 200, statusText = ''OK'', json = Some errors_payload \<rparr>"
  let ?seven = "\<lparr> status = 200, statusText = ''OK'', json = Some seven_payload \<rparr>"
  have h1: "truthy_string (Some ''ghp_token'')"
    by (simp add: truthy_string_def)
  have h2: "retryRequest errors_requestFn 3 1000 = (Inr ?response, 1, [])"
    by (simp add: retry_eval errors_requestFn_def)
  have h3: "json ?response = Some errors_payload"
    by simp
  have s2: "retryRequest seven_requestFn 3 1000 = (Inr ?seven, 1, [])"
    by (simp add: retry_eval seven_requestFn_def)
  have s3: "json ?seven = Some seven_payload"
    by simp
  have s4: "truthy_number 7"
    by (simp add: truthy_number_def)
  from fetchGitHubGraphQL_payload [OF h1 h2 h3, of truthy_object]
  have e: "fst (fetchGitHubGraphQL truthy_object errors_requestFn (Some ''ghp_token'')) =
     Inl (GraphQLErrors ''GraphQL errors: Field x is missing, Timeout'')"
    by (simp add: errors_payload_def)
  from fetchGitHubGraphQL_payload [OF h1 s2 s3, of truthy_number] s4
  have "fst (fetchGitHubGraphQL truthy_number seven_requestFn (Some ''ghp_token'')) = Inr 7"
    by (simp add: seven_payload_def)
  with h1 h2 e s2 s4 show ?thesis by simp
qed

section \<open>Properties of the repository listing route\<close>

lemma page_simps [simp]:
  "page_nodes (page ns nxt) = ns" "page_hasNextPage (page ns nxt) = nxt"
  "page_endCursor (page ns nxt) = Some ''Y3Vyc29y''"
  by (simp_all add: page_def page_nodes_def page_hasNextPage_def page_endCursor_def page_info_def)

lemma paginate_one_page: "paginate (Suc fuel) (one_page ns) 0 [] True None = Some (Inr ns)"
  by (simp add: paginate.simps one_page_def)

lemma GET_repos_one_page:
  "GET_repos (Suc fuel) req (Some (c # cs)) (one_page ns) = Some (Json (select_repos req ns))"
  by (simp add: GET_repos_def truthy_string_def paginate_one_page)

lemmas select_eval =
  select_repos_def is_public_def sample_repo_def featured_of_def limit_of_def parseInt_def
  is_white_space_def is_digit_def digits_value_def prioritize_def is_featured_def
  toLowerCase_def toLowerCase_char_def sort_by_def compare_stars_def stars_def slice_to_def

lemma set_insert_by: "set (insert_by cmp x xs) = insert x (set xs)"
  by (induction xs) auto

lemma set_sort_by: "set (sort_by cmp xs) = set xs"
  unfolding sort_by_def by (induction xs) (simp_all add: set_insert_by)

lemma set_prioritize: "set (prioritize featured xs) = set xs"
  by (auto simp: prioritize_def Let_def)

lemma set_slice_to: "set (slice_to limit xs) \<subseteq> set xs"
  by (auto simp: slice_to_def split: number.splits dest: in_set_takeD)

lemma select_repos_from_public:
  assumes "r \<in> set (select_repos req allRepos)"
  shows "\<exists>repo \<in> set allRepos. is_public repo \<and> r = normalize_repo repo"
proof -
  from assms obtain repo where r: "r = normalize_repo repo"
    and mem: "repo \<in> set (slice_to (limit_of req)
          (sort_by compare_stars (prioritize (featured_of req) (filter is_public allRepos))))"
    by (auto simp: select_repos_def)
  from mem have "repo \<in> set (sort_by compare_stars
      (prioritize (featured_of req) (filter is_public allRepos)))"
    by (rule subsetD [OF set_slice_to])
  then have "repo \<in> set (filter is_public allRepos)"
    by (simp only: set_sort_by set_prioritize)
  with r show ?thesis by auto
qed

lemma GET_repos_Json:
  "GET_repos fuel req token fetch = Some (Json out) \<Longrightarrow>
     \<exists>allRepos. paginate fuel fetch 0 [] True None = Some (Inr allRepos) \<and>
       out = select_repos req allRepos"
  by (auto simp: GET_repos_def split: if_splits option.splits sum.splits)

text \<open>
  C4. Whatever the upstream answers and whatever the \<^verbatim>\<open>featured\<close> and \<^verbatim>\<open>limit\<close>
  parameters are, no repository of a successful response is private, archived or a
  template.
\<close>

theorem GET_repos_only_public:
  assumes "GET_repos fuel req token fetch = Some (Json out)"
  shows "\<forall>r \<in> set out. \<not> r_isPrivate r \<and> \<not> r_isArchived r \<and> \<not> r_isTemplate r"
proof
  fix r assume "r \<in> set out"
  from assms obtain allRepos where "out = select_repos req allRepos"
    using GET_repos_Json by blast
  with \<open>r \<in> set out\<close> obtain repo where "is_public repo" "r = normalize_repo repo"
    using select_repos_from_public by blast
  then show "\<not> r_isPrivate r \<and> \<not> r_isArchived r \<and> \<not> r_isTemplate r"
    by (simp add: is_public_def normalize_repo_def)
qed

theorem GET_repos_only_public_witness:
  "GET_repos 1 \<lparr> featured_param = Some ''secret'', limit_param = Some ''5'' \<rparr> (Some ''ghp_token'')
     (one_page [private_repo, sample_repo ''portfolio'' 4]) =
     Some (Json [normalize_repo (sample_repo ''portfolio'' 4)]) \<and>
   \<not> r_isPrivate (normalize_repo (sample_repo ''portfolio'' 4)) \<and>
   \<not> r_isArchived (normalize_repo (sample_repo ''portfolio'' 4)) \<and>
   \<not> r_isTemplate (normalize_repo (sample_repo ''portfolio'' 4))"
proof -
  have h: "GET_repos 1 \<lparr> featured_param = Some ''secret'', limit_param = Some ''5'' \<rparr>
     (Some ''ghp_token'') (one_page [private_repo, sample_repo ''portfolio'' 4]) =
     Some (Json [normalize_repo (sample_repo ''portfolio'' 4)])"
    unfolding One_nat_def GET_repos_one_page
    by (simp add: select_eval private_repo_def)
  from GET_repos_only_public [OF h] show ?thesis
    using h by simp
qed

text \<open>
  C1. Repositories A (\<open>foo-a\<close>, 1 star), B (\<open>bar\<close>, 10 stars) and C (\<open>foo-c\<close>,
  2 stars), requested with \<^verbatim>\<open>featured=foo&limit=3\<close>, in the order of the claim and in
  the order in which the upstream (sorted by stars) delivers them: the response is
  B, C, A. The sort by stars of lines 180 to 183 runs after the featured repositories
  were moved to the front and undoes that.
\<close>

theorem featured_repos_not_first:
  "GET_repos 1 \<lparr> featured_param = Some ''foo'', limit_param = Some ''3'' \<rparr> (Some ''ghp_token'')
     (one_page [sample_repo ''foo-a'' 1, sample_repo ''bar'' 10, sample_repo ''foo-c'' 2]) =
     Some (Json (map normalize_repo
       [sample_repo ''bar'' 10, sample_repo ''foo-c'' 2, sample_repo ''foo-a'' 1])) \<and>
   GET_repos 1 \<lparr> featured_param = Some ''foo'', limit_param = Some ''3'' \<rparr> (Some ''ghp_token'')
     (one_page [sample_repo ''bar'' 10, sample_repo ''foo-c'' 2, sample_repo ''foo-a'' 1]) =
     Some (Json (map normalize_repo
       [sample_repo ''bar'' 10, sample_repo ''foo-c'' 2, sample_repo ''foo-a'' 1]))"
  unfolding One_nat_def GET_repos_one_page
  by (simp add: select_eval)

text \<open>
  The response is always in descending order of stars: the featured repositories only
  come first among repositories with the same number of stars.
\<close>

lemma sorted_insert_by:
  "sorted_wrt (\<lambda>a b. stars b \<le> stars a) xs \<Longrightarrow>
     sorted_wrt (\<lambda>a b. stars b \<le> stars a) (insert_by compare_stars x xs)"
  by (induction xs) (auto simp: compare_stars_def set_insert_by)

lemma sorted_sort_by: "sorted_wrt (\<lambda>a b. stars b \<le> stars a) (sort_by compare_stars xs)"
  unfolding sort_by_def by (induction xs) (simp_all add: sorted_insert_by)

lemma sorted_wrt_slice_to: "sorted_wrt P xs \<Longrightarrow> sorted_wrt P (slice_to limit xs)"
  by (auto simp: slice_to_def sorted_wrt_take split: number.splits)

lemma select_repos_sorted_by_stars:
  "sorted_wrt (\<lambda>a b. stargazerCount b \<le> stargazerCount a) (select_repos req allRepos)"
proof -
  have "sorted_wrt (\<lambda>a b. stars b \<le> stars a)
     (slice_to (limit_of req)
        (sort_by compare_stars (prioritize (featured_of req) (filter is_public allRepos))))"
    by (intro sorted_wrt_slice_to sorted_sort_by)
  then show ?thesis
    by (simp add: select_repos_def sorted_wrt_map normalize_repo_def)
qed

subsection \<open>The pagination loop\<close>

text \<open>
  C3, the claim as stated fails: a first page of 50 nodes that reports
  \<^verbatim>\<open>hasNextPage\<close> true is followed by a second request, and the whole second page of
  100 nodes is appended. 150 nodes are accumulated.
\<close>

theorem paginate_exceeds_100:
  "paginate (Suc (Suc 0)) partial_then_full 0 [] True None =
     Some (Inr (replicate 50 (sample_repo ''repo'' 1) @ replicate 100 (sample_repo ''repo'' 1))) \<and>
   length (replicate 50 (sample_repo ''repo'' 1) @ replicate 100 (sample_repo ''repo'' 1)) = 150"
  by (simp add: paginate.simps partial_then_full_def)

text \<open>
  The loop has no bound of its own on the number of requests: it never ends on an
  upstream of empty pages that report \<^verbatim>\<open>hasNextPage\<close> true, and ends within 100
  requests when no page is empty.
\<close>

lemma paginate_empty_pages_never_ends:
  "paginate fuel empty_pages k [] True cursor = None"
  by (induction fuel arbitrary: k cursor) (simp_all add: paginate.simps empty_pages_def)

lemma paginate_enough_fuel:
  assumes "\<forall>k c d. fetch k c = Inr d \<longrightarrow> page_nodes d \<noteq> []"
    and "100 \<le> fuel + length acc"
  shows "paginate fuel fetch k acc hasNext cursor \<noteq> None"
  using assms(2)
proof (induction fuel arbitrary: k acc hasNext cursor)
  case 0
  then show ?case by (simp add: paginate.simps)
next
  case (Suc fuel)
  show ?case
  proof (cases "fetch k cursor")
    case (Inl e)
    then show ?thesis by (simp add: paginate.simps)
  next
    case (Inr d)
    with assms(1) have "page_nodes d \<noteq> []" by blast
    then have "1 \<le> length (page_nodes d)" by (cases "page_nodes d") simp_all
    with Suc.prems have "100 \<le> fuel + length (acc @ page_nodes d)"
      unfolding length_append by linarith
    from Suc.IH [OF this] Inr show ?thesis by (simp add: paginate.simps)
  qed
qed

lemma paginate_length_gen:
  assumes "paginate fuel fetch k acc hasNext cursor = Some (Inr allRepos)"
    and "\<forall>k c d. fetch k c = Inr d \<longrightarrow> length (page_nodes d) \<le> P"
    and "length acc \<le> 99 + P"
  shows "length allRepos \<le> 99 + P"
  using assms(1,3)
proof (induction fuel arbitrary: k acc hasNext cursor)
  case 0
  then show ?case by (simp add: paginate.simps split: if_splits)
next
  case (Suc fuel)
  show ?case
  proof (cases "hasNext \<and> length acc < 100")
    case False
    with Suc.prems show ?thesis by (simp add: paginate.simps)
  next
    case True
    show ?thesis
    proof (cases "fetch k cursor")
      case (Inl e)
      with True Suc.prems show ?thesis by (simp add: paginate.simps)
    next
      case (Inr d)
      with assms(2) have "length (page_nodes d) \<le> P" by blast
      with True have len: "length (acc @ page_nodes d) \<le> 99 + P" by simp
      from True Inr Suc.prems(1)
      have "paginate fuel fetch (Suc k) (acc @ page_nodes d) (page_hasNextPage d)
          (page_endCursor d) = Some (Inr allRepos)"
        by (simp add: paginate.simps)
      from Suc.IH [OF this len] show ?thesis .
    qed
  qed
qed

lemma paginate_length_full_pages:
  assumes "paginate fuel fetch k acc hasNext cursor = Some (Inr allRepos)"
    and "\<forall>k c d. fetch k c = Inr d \<longrightarrow> length (page_nodes d) \<le> 100"
    and "\<forall>k c d. fetch k c = Inr d \<and> page_hasNextPage d \<longrightarrow> length (page_nodes d) = 100"
    and "length acc \<le> 100" and "hasNext \<longrightarrow> acc = [] \<or> length acc = 100"
  shows "length allRepos \<le> 100"
  using assms(1,4,5)
proof (induction fuel arbitrary: k acc hasNext cursor)
  case 0
  then show ?case by (simp add: paginate.simps split: if_splits)
next
  case (Suc fuel)
  show ?case
  proof (cases "hasNext \<and> length acc < 100")
    case False
    with Suc.prems show ?thesis by (simp add: paginate.simps)
  next
    case True
    with Suc.prems have acc: "acc = []" by auto
    show ?thesis
    proof (cases "fetch k cursor")
      case (Inl e)
      with True Suc.prems show ?thesis by (simp add: paginate.simps)
    next
      case (Inr d)
      with assms(2) have l1: "length (acc @ page_nodes d) \<le> 100" using acc by auto
      from Inr assms(3) have l2: "page_hasNextPage d \<longrightarrow>
          acc @ page_nodes d = [] \<or> length (acc @ page_nodes d) = 100"
        using acc by auto
      from True Inr Suc.prems(1)
      have "paginate fuel fetch (Suc k) (acc @ page_nodes d) (page_hasNextPage d)
          (page_endCursor d) = Some (Inr allRepos)"
        by (simp add: paginate.simps)
      from Suc.IH [OF this l1 l2] show ?thesis .
    qed
  qed
qed

text \<open>
  C3, amended. The loop asks for a page only while fewer than 100 nodes are accumulated,
  and appends every page it receives whole. With pages of at most 100 nodes (the query
  asks for \<^verbatim>\<open>first: 100\<close>) at most 199 nodes are accumulated; at most 100 when, in
  addition, every page that reports \<^verbatim>\<open>hasNextPage\<close> true is a full page of 100 nodes.
\<close>

theorem paginate_bounds:
  assumes "paginate fuel fetch 0 [] True None = Some (Inr allRepos)"
    and "\<forall>k c d. fetch k c = Inr d \<longrightarrow> length (page_nodes d) \<le> 100"
  shows "length allRepos \<le> 199 \<and>
    ((\<forall>k c d. fetch k c = Inr d \<and> page_hasNextPage d \<longrightarrow> length (page_nodes d) = 100) \<longrightarrow>
       length allRepos \<le> 100)"
proof
  from paginate_length_gen [OF assms(1), of 100] assms(2)
  show "length allRepos \<le> 199" by simp
next
  show "(\<forall>k c d. fetch k c = Inr d \<and> page_hasNextPage d \<longrightarrow> length (page_nodes d) = 100) \<longrightarrow>
       length allRepos \<le> 100"
  proof
    assume full: "\<forall>k c d. fetch k c = Inr d \<and> page_hasNextPage d \<longrightarrow> length (page_nodes d) = 100"
    from paginate_length_full_pages [OF assms(1) assms(2) full] show "length allRepos \<le> 100"
      by simp
  qed
qed

theorem paginate_bounds_witness:
  "paginate (Suc (Suc 0)) (partial_then_full :: unit upstream) 0 [] True None =
     Some (Inr (replicate 50 (sample_repo ''repo'' 1) @ replicate 100 (sample_repo ''repo'' 1))) \<and>
   length (replicate 50 (sample_repo ''repo'' 1) @ replicate 100 (sample_repo ''repo'' 1)) \<le> 199 \<and>
   paginate (Suc 0) (full_pages :: unit upstream) 0 [] True None =
     Some (Inr (replicate 100 (sample_repo ''repo'' 1))) \<and>
   length (replicate 100 (sample_repo ''repo'' 1)) \<le> 100"
proof -
  have h1: "paginate (Suc (Suc 0)) (partial_then_full :: unit upstream) 0 [] True None =
     Some (Inr (replicate 50 (sample_repo ''repo'' 1) @ replicate 100 (sample_repo ''repo'' 1)))"
    by (simp add: paginate.simps partial_then_full_def)
  have h2: "\<forall>k c d. (partial_then_full :: unit upstream) k c = Inr d \<longrightarrow>
      length (page_nodes d) \<le> 100"
    by (auto simp: partial_then_full_def split: if_splits)
  have f1: "paginate (Suc 0) (full_pages :: unit upstream) 0 [] True None =
     Some (Inr (replicate 100 (sample_repo ''repo'' 1)))"
    by (simp add: paginate.simps full_pages_def)
  have f2: "\<forall>k c d. (full_pages :: unit upstream) k c = Inr d \<longrightarrow> length (page_nodes d) \<le> 100"
    by (auto simp: full_pages_def)
  have f3: "\<forall>k c d. (full_pages :: unit upstream) k c = Inr d \<and> page_hasNextPage d \<longrightarrow>
      length (page_nodes d) = 100"
    by (auto simp: full_pages_def)
  from paginate_bounds [OF h1 h2] have b1:
    "length (replicate 50 (sample_repo ''repo'' 1) @ replicate 100 (sample_repo ''repo'' 1)) \<le> 199"
    by (rule conjunct1)
  from paginate_bounds [OF f1 f2] f3 have b2: "length (replicate 100 (sample_repo ''repo'' 1)) \<le> 100"
    by blast
  from h1 b1 f1 b2 show ?thesis by (intro conjI)
qed

subsection \<open>Normalization\<close>

text \<open>
  C6. A node with no \<^verbatim>\<open>stargazers\<close> (or no count in it), no \<^verbatim>\<open>forkCount\<close>, no
  \<^verbatim>\<open>languages\<close> is normalized to 0 stars, 0 forks and the empty language breakdown.
  The output \<^verbatim>\<open>defaultBranchRef\<close> wraps the count when
  \<^verbatim>\<open>defaultBranchRef.target.history.totalCount\<close> is there, and is \<^verbatim>\<open>null\<close> when any
  link of the chain is missing.
\<close>

theorem normalize_repo_defaults:
  "(stargazers repo = None \<longrightarrow> stargazerCount (normalize_repo repo) = 0) \<and>
   (\<forall>sg. stargazers repo = Some sg \<and> totalCount sg = None \<longrightarrow>
      stargazerCount (normalize_repo repo) = 0) \<and>
   (forkCount repo = None \<longrightarrow> r_forkCount (normalize_repo repo) = 0) \<and>
   (languages repo = None \<longrightarrow>
      r_languages (normalize_repo repo) = \<lparr> totalSize = 0, edges = [] \<rparr>) \<and>
   (\<forall>b t h n. defaultBranchRef repo = Some b \<and> target b = Some t \<and> history t = Some h \<and>
      totalCount h = Some n \<longrightarrow>
      r_defaultBranchRef (normalize_repo repo) = Some (HistoryCount n)) \<and>
   (defaultBranchRef repo = None \<longrightarrow> r_defaultBranchRef (normalize_repo repo) = None) \<and>
   (\<forall>b. defaultBranchRef repo = Some b \<and> target b = None \<longrightarrow>
      r_defaultBranchRef (normalize_repo repo) = None) \<and>
   (\<forall>b t. defaultBranchRef repo = Some b \<and> target b = Some t \<and> history t = None \<longrightarrow>
      r_defaultBranchRef (normalize_repo repo) = None) \<and>
   (\<forall>b t h. defaultBranchRef repo = Some b \<and> target b = Some t \<and> history t = Some h \<and>
      totalCount h = None \<longrightarrow>
      r_defaultBranchRef (normalize_repo repo) = None)"
  by (simp add: normalize_repo_def stars_def history_totalCount_def)

theorem normalize_repo_defaults_witness:
  "stargazers bare_repo = None \<and> forkCount bare_repo = None \<and> languages bare_repo = None \<and>
   defaultBranchRef bare_repo = None \<and>
   stargazerCount (normalize_repo bare_repo) = 0 \<and>
   r_forkCount (normalize_repo bare_repo) = 0 \<and>
   r_languages (normalize_repo bare_repo) = \<lparr> totalSize = 0, edges = [] \<rparr> \<and>
   r_defaultBranchRef (normalize_repo bare_repo) = None \<and>
   r_defaultBranchRef (normalize_repo counted_repo) = Some (HistoryCount 42)"
proof -
  have h: "stargazers bare_repo = None" "forkCount bare_repo = None"
    "languages bare_repo = None" "defaultBranchRef bare_repo = None"
    by (simp_all add: bare_repo_def sample_repo_def)
  have c: "defaultBranchRef counted_repo =
      Some \<lparr> target = Some \<lparr> history = Some \<lparr> totalCount = Some 42 \<rparr> \<rparr> \<rparr>"
    by (simp add: counted_repo_def sample_repo_def)
  from normalize_repo_defaults [of bare_repo] h
  have "stargazerCount (normalize_repo bare_repo) = 0"
    "r_forkCount (normalize_repo bare_repo) = 0"
    "r_languages (normalize_repo bare_repo) = \<lparr> totalSize = 0, edges = [] \<rparr>"
    "r_defaultBranchRef (normalize_repo bare_repo) = None"
    by blast+
  moreover from normalize_repo_defaults [of counted_repo] c
  have "r_defaultBranchRef (normalize_repo counted_repo) = Some (HistoryCount 42)"
    by simp
  ultimately show ?thesis using h by simp
qed

subsection \<open>Language breakdown\<close>

text \<open>
  C9, the claim as stated fails: the route forwards the \<^verbatim>\<open>languages\<close> object of an
  upstream node as it is. A node with eleven languages in ascending order of size comes
  out with the same eleven, in the same order.
\<close>

theorem languages_forwarded_unchecked:
  "GET_repos 1 \<lparr> featured_param = None, limit_param = None \<rparr> (Some ''ghp_token'')
     (one_page [polyglot_repo]) = Some (Json [normalize_repo polyglot_repo]) \<and>
   map edge_size (edges (r_languages (normalize_repo polyglot_repo))) =
     [1, 2, 3, 4, 5, 6, 7, 8, 9, 10, 11]"
proof -
  have "select_repos \<lparr> featured_param = None, limit_param = None \<rparr> [polyglot_repo] =
      [normalize_repo polyglot_repo]"
    by (simp add: select_eval polyglot_repo_def)
  moreover have "map edge_size (edges (r_languages (normalize_repo polyglot_repo))) =
     [1, 2, 3, 4, 5, 6, 7, 8, 9, 10, 11]"
    by (simp add: normalize_repo_def polyglot_repo_def sample_repo_def language_edge_def)
  ultimately show ?thesis
    unfolding One_nat_def GET_repos_one_page by simp
qed

lemma paginate_nodes:
  assumes "paginate fuel fetch k acc hasNext cursor = Some (Inr allRepos)"
    and "n \<in> set allRepos"
  shows "n \<in> set acc \<or> (\<exists>k c d. fetch k c = Inr d \<and> n \<in> set (page_nodes d))"
  using assms(1)
proof (induction fuel arbitrary: k acc hasNext cursor)
  case 0
  with assms(2) show ?case by (auto simp: paginate.simps split: if_splits)
next
  case (Suc fuel)
  show ?case
  proof (cases "hasNext \<and> length acc < 100")
    case False
    with Suc.prems assms(2) show ?thesis by (auto simp: paginate.simps)
  next
    case True
    show ?thesis
    proof (cases "fetch k cursor")
      case (Inl e)
      with True Suc.prems show ?thesis by (simp add: paginate.simps)
    next
      case (Inr d)
      with True Suc.prems
      have "paginate fuel fetch (Suc k) (acc @ page_nodes d) (page_hasNextPage d)
          (page_endCursor d) = Some (Inr allRepos)"
        by (simp add: paginate.simps)
      from Suc.IH [OF this] Inr show ?thesis by auto
    qed
  qed
qed

text \<open>
  C9, amended. The bound and the order are the upstream's, asked for by the query
  (\<^verbatim>\<open>languages(first: 10, orderBy: {field: SIZE, direction: DESC})\<close>); the route
  neither truncates nor sorts. When every node the upstream delivers has at most 10
  language edges in descending order of size, so has every repository of the response
  (a node without \<^verbatim>\<open>languages\<close> gets the empty breakdown).
\<close>

theorem GET_repos_languages_from_upstream:
  assumes "GET_repos fuel req token fetch = Some (Json out)"
    and "\<forall>k c d. fetch k c = Inr d \<longrightarrow>
      (\<forall>n \<in> set (page_nodes d). \<forall>ls. languages n = Some ls \<longrightarrow> descending_top10 ls)"
  shows "\<forall>r \<in> set out. length (edges (r_languages r)) \<le> 10 \<and>
    sorted_wrt (\<lambda>a b. edge_size b \<le> edge_size a) (edges (r_languages r))"
proof
  fix r assume "r \<in> set out"
  from assms(1) obtain allRepos
    where pg: "paginate fuel fetch 0 [] True None = Some (Inr allRepos)"
      and out: "out = select_repos req allRepos"
    using GET_repos_Json by blast
  from \<open>r \<in> set out\<close> out obtain repo where repo: "repo \<in> set allRepos" "r = normalize_repo repo"
    using select_repos_from_public by blast
  from paginate_nodes [OF pg repo(1)] obtain k c d
    where "fetch k c = Inr d" "repo \<in> set (page_nodes d)"
    by auto
  with assms(2) have "\<forall>ls. languages repo = Some ls \<longrightarrow> descending_top10 ls"
    by blast
  then have "descending_top10 (r_languages (normalize_repo repo))"
    by (cases "languages repo") (simp_all add: normalize_repo_def descending_top10_def)
  with repo(2) show "length (edges (r_languages r)) \<le> 10 \<and>
    sorted_wrt (\<lambda>a b. edge_size b \<le> edge_size a) (edges (r_languages r))"
    by (simp add: descending_top10_def)
qed

theorem GET_repos_languages_from_upstream_witness:
  "GET_repos 1 \<lparr> featured_param = None, limit_param = None \<rparr> (Some ''ghp_token'')
     (one_page [typescript_repo] :: unit upstream) = Some (Json [normalize_repo typescript_repo]) \<and>
   length (edges (r_languages (normalize_repo typescript_repo))) \<le> 10 \<and>
   sorted_wrt (\<lambda>a b. edge_size b \<le> edge_size a)
     (edges (r_languages (normalize_repo typescript_repo)))"
proof -
  have "select_repos \<lparr> featured_param = None, limit_param = None \<rparr> [typescript_repo] =
      [normalize_repo typescript_repo]"
    by (simp add: select_eval typescript_repo_def)
  then have h1: "GET_repos 1 \<lparr> featured_param = None, limit_param = None \<rparr> (Some ''ghp_token'')
     (one_page [typescript_repo] :: unit upstream) = Some (Json [normalize_repo typescript_repo])"
    unfolding One_nat_def GET_repos_one_page by simp
  have h2: "\<forall>k c d. (one_page [typescript_repo] :: unit upstream) k c = Inr d \<longrightarrow>
      (\<forall>n \<in> set (page_nodes d). \<forall>ls. languages n = Some ls \<longrightarrow> descending_top10 ls)"
    by (auto simp: one_page_def typescript_repo_def sample_repo_def descending_top10_def
        language_edge_def)
  from GET_repos_languages_from_upstream [OF h1 h2] h1 show ?thesis by simp
qed

subsection \<open>The limit parameter\<close>

lemma limit_of_absent: "limit_of (req \<lparr> limit_param := None \<rparr>) = Num 10"
  by (simp add: limit_of_def parseInt_def is_white_space_def is_digit_def digits_value_def)

lemma limit_of_empty: "limit_of (req \<lparr> limit_param := Some [] \<rparr>) = Num 10"
  by (simp add: limit_of_def parseInt_def is_white_space_def is_digit_def digits_value_def)

text \<open>
  C10, the claim as stated fails: in \<^verbatim>\<open>/repos?limit=\<close> the parameter is present, its
  value the empty string, which \<^verbatim>\<open>parseInt\<close> does not parse; but the empty string is
  falsy, line 87 replaces it by \<^verbatim>\<open>'10'\<close>, and the response holds the repository.
\<close>

theorem empty_limit_gets_default:
  "parseInt [] = NaN \<and>
   GET_repos 1 \<lparr> featured_param = None, limit_param = Some [] \<rparr> (Some ''ghp_token'')
     (one_page [sample_repo ''portfolio'' 4]) =
     Some (Json [normalize_repo (sample_repo ''portfolio'' 4)])"
  unfolding One_nat_def GET_repos_one_page
  by (simp add: select_eval)

text \<open>
  C10, amended. When the \<^verbatim>\<open>limit\<close> parameter is present, not empty, and
  \<^verbatim>\<open>parseInt\<close> yields \<^verbatim>\<open>NaN\<close> on it, the response is the empty list whatever the
  upstream repositories are, where the same request without the parameter gets the first
  10 of them; a present but empty parameter is answered like an absent one.
\<close>

theorem GET_repos_NaN_limit:
  assumes "limit_param req = Some s" and "s \<noteq> []" and "parseInt s = NaN"
    and "truthy_string token"
    and "paginate fuel fetch 0 [] True None = Some (Inr allRepos)"
  shows "GET_repos fuel req token fetch = Some (Json []) \<and>
    GET_repos fuel (req \<lparr> limit_param := None \<rparr>) token fetch =
      Some (Json (map normalize_repo (take 10
        (sort_by compare_stars (prioritize (featured_of req) (filter is_public allRepos)))))) \<and>
    GET_repos fuel (req \<lparr> limit_param := Some [] \<rparr>) token fetch =
      GET_repos fuel (req \<lparr> limit_param := None \<rparr>) token fetch"
proof -
  from assms(1-3) have "limit_of req = NaN"
    by (simp add: limit_of_def)
  with assms(4,5) show ?thesis
    by (simp add: GET_repos_def select_repos_def slice_to_def limit_of_absent limit_of_empty
        featured_of_def)
qed

theorem GET_repos_NaN_limit_witness:
  "parseInt ''abc'' = NaN \<and>
   GET_repos 1 \<lparr> featured_param = None, limit_param = Some ''abc'' \<rparr> (Some ''ghp_token'')
     (one_page [sample_repo ''portfolio'' 4] :: unit upstream) = Some (Json []) \<and>
   GET_repos 1 \<lparr> featured_param = None, limit_param = None \<rparr> (Some ''ghp_token'')
     (one_page [sample_repo ''portfolio'' 4] :: unit upstream) =
     Some (Json [normalize_repo (sample_repo ''portfolio'' 4)])"
proof -
  let ?req = "\<lparr> featured_param = None, limit_param = Some ''abc'' \<rparr>"
  have h1: "limit_param ?req = Some ''abc''" by simp
  have h2: "''abc'' \<noteq> []" by simp
  have h3: "parseInt ''abc'' = NaN"
    by (simp add: parseInt_def is_white_space_def is_digit_def)
  have h4: "truthy_string (Some ''ghp_token'')" by (simp add: truthy_string_def)
  have h5: "paginate 1 (one_page [sample_repo ''portfolio'' 4] :: unit upstream) 0 [] True None =
      Some (Inr [sample_repo ''portfolio'' 4])"
    unfolding One_nat_def by (rule paginate_one_page)
  from GET_repos_NaN_limit [OF h1 h2 h3 h4 h5] h3 show ?thesis
    by (simp add: select_eval)
qed

section \<open>Properties of the statistics route\<close>

lemma foldl_add_sum_list:
  "foldl (\<lambda>sum x. sum + f x) a xs = (a :: int) + sum_list (map f xs)"
  by (induction xs arbitrary: a) simp_all

text \<open>
  C8. With a token and a user in the upstream answer, the route responds with statistics
  whose \<open>totalStars\<close> is the sum, over the repository nodes of the answer, of the
  stargazer count, a missing count being 0. Stars 3, 0 and 7 give 10.
\<close>

theorem GET_stats_totalStars:
  assumes "truthy_string token"
  shows "\<exists>stats. GET_stats token (Inr (Some u)) = Json stats \<and>
    totalStars stats =
      (\<Sum>repo \<leftarrow> sr_nodes (u_repositories u).
         case sn_stargazers repo of
           None \<Rightarrow> 0
         | Some sg \<Rightarrow> (case totalCount sg of None \<Rightarrow> 0 | Some n \<Rightarrow> n))"
proof -
  have "count_or_zero = (\<lambda>x. case x of None \<Rightarrow> 0
      | Some sg \<Rightarrow> (case totalCount sg of None \<Rightarrow> 0 | Some n \<Rightarrow> n))"
    by (rule ext) (simp add: count_or_zero_def)
  then have "totalStars (to_stats u) =
      (\<Sum>repo \<leftarrow> sr_nodes (u_repositories u).
         case sn_stargazers repo of
           None \<Rightarrow> 0
         | Some sg \<Rightarrow> (case totalCount sg of None \<Rightarrow> 0 | Some n \<Rightarrow> n))"
    by (simp add: to_stats_def sum_stars_def foldl_add_sum_list)
  with assms show ?thesis by (simp add: GET_stats_def)
qed

theorem GET_stats_totalStars_witness:
  "truthy_string (Some ''ghp_token'') \<and>
   GET_stats (Some ''ghp_token'') (Inr (Some (sample_user [starred 3, starred 0, starred 7]))) =
     Json (to_stats (sample_user [starred 3, starred 0, starred 7])) \<and>
   totalStars (to_stats (sample_user [starred 3, starred 0, starred 7])) = 10"
proof -
  have h: "truthy_string (Some ''ghp_token'')"
    by (simp add: truthy_string_def)
  have g: "GET_stats (Some ''ghp_token'') (Inr (Some (sample_user [starred 3, starred 0, starred 7]))) =
     Json (to_stats (sample_user [starred 3, starred 0, starred 7]))"
    using h by (simp add: GET_stats_def)
  from GET_stats_totalStars [OF h, of "sample_user [starred 3, starred 0, starred 7]"]
  have "totalStars (to_stats (sample_user [starred 3, starred 0, starred 7])) = 10"
    unfolding g by (simp add: sample_user_def starred_def)
  with h g show ?thesis by simp
qed

end
